theory Spec2Isabelle
  imports
    Complex_Main
    "HOL-Library.AList"
    "HOL-Library.Char_ord"
    "HOL-Library.List_Lexorder"
    "HOL-Library.Multiset"
begin

section \<open>Data model: cells, series and frames\<close>

text \<open>
  The program is a single script, \<^verbatim>\<open>app.py\<close>, that works on pandas data frames. A frame
  is modelled row-major: the list of its column labels and the list of its rows, each row an
  association list from column label to cell. A series (one column) is the list of the cells
  of that column, in row order.

  A cell is a missing value (\<open>NaN\<close>, which also stands for \<open>NaT\<close>), a text, a number or a
  time stamp. Numbers are exact rationals: the rounding error of \<open>float64\<close> arithmetic is
  not modelled. A time stamp is the number of nanoseconds since 1970-01-01 00:00:00, as in
  \<open>datetime64[ns]\<close>, without a time zone.
\<close>

datatype cell = NaN | Num rat | Ts int | Str string

text \<open>
  Cells are ordered so that group keys and option lists can be sorted: a missing value
  first, then numbers, time stamps and texts, each kind by its own order (texts byte-wise
  lexicographic, which on UTF-8 is the code-point order of Python).
\<close>

instantiation cell :: linorder
begin

fun less_eq_cell :: "cell \<Rightarrow> cell \<Rightarrow> bool" where
  "less_eq_cell NaN _ = True"
| "less_eq_cell (Num x) NaN = False"
| "less_eq_cell (Num x) (Num y) = (x \<le> y)"
| "less_eq_cell (Num x) _ = True"
| "less_eq_cell (Ts s) NaN = False"
| "less_eq_cell (Ts s) (Num y) = False"
| "less_eq_cell (Ts s) (Ts t) = (s \<le> t)"
| "less_eq_cell (Ts s) (Str b) = True"
| "less_eq_cell (Str a) (Str b) = (a \<le> b)"
| "less_eq_cell (Str a) _ = False"

definition less_cell :: "cell \<Rightarrow> cell \<Rightarrow> bool" where
  "less_cell a b = (a \<le> b \<and> \<not> b \<le> a)"

instance
proof
  fix x y z :: cell
  show "(x < y) = (x \<le> y \<and> \<not> y \<le> x)"
    by (simp add: less_cell_def)
  show "x \<le> x"
    by (cases x) simp_all
  show "x \<le> y \<Longrightarrow> y \<le> z \<Longrightarrow> x \<le> z"
    by (cases x; cases y; cases z) simp_all
  show "x \<le> y \<Longrightarrow> y \<le> x \<Longrightarrow> x = y"
    by (cases x; cases y) simp_all
  show "x \<le> y \<or> y \<le> x"
    by (cases x; cases y) auto
qed

end

type_synonym series = "cell list"

type_synonym row = "(string \<times> cell) list"

record frame =
  columns :: "string list"
  rows :: "row list"

text \<open>\<open>row[name]\<close>: the cell of a row under a label; a label the row does not have reads as missing.\<close>

definition get :: "row \<Rightarrow> string \<Rightarrow> cell" where
  "get r name = (case map_of r name of Some c \<Rightarrow> c | None \<Rightarrow> NaN)"

text \<open>\<open>df[name]\<close>: a column as a series.\<close>

definition col :: "frame \<Rightarrow> string \<Rightarrow> series" where
  "col df name = map (\<lambda>r. get r name) (rows df)"

text \<open>
  \<open>df[name] = values\<close>: an existing column is overwritten in place, a new one is appended
  after the others. The values are aligned with the rows: a row beyond the last value gets a
  missing value, and values beyond the last row are left out.
\<close>

definition align :: "nat \<Rightarrow> series \<Rightarrow> series" where
  "align n vals = take n vals @ replicate (n - length vals) NaN"

definition set_col :: "string \<Rightarrow> series \<Rightarrow> frame \<Rightarrow> frame" where
  "set_col name vals df =
     \<lparr>columns = (if name \<in> set (columns df) then columns df else columns df @ [name]),
      rows = map2 (\<lambda>r v. AList.update name v r) (rows df) (align (length (rows df)) vals)\<rparr>"

text \<open>\<open>df[name] = scalar\<close>: the scalar is broadcast to every row.\<close>

definition set_col_scalar :: "string \<Rightarrow> cell \<Rightarrow> frame \<Rightarrow> frame" where
  "set_col_scalar name v df = set_col name (replicate (length (rows df)) v) df"

definition notna :: "cell \<Rightarrow> bool" where
  "notna c = (c \<noteq> NaN)"

text \<open>\<open>df.loc[mask]\<close>: the rows at which the boolean series is true.\<close>

definition loc :: "frame \<Rightarrow> bool list \<Rightarrow> frame" where
  "loc df m = \<lparr>columns = columns df, rows = map fst (filter snd (zip (rows df) m))\<rparr>"

text \<open>\<open>df.dropna(subset=[name])\<close>.\<close>

definition dropna :: "string \<Rightarrow> frame \<Rightarrow> frame" where
  "dropna name df = loc df (map notna (col df name))"

text \<open>\<open>series.nunique()\<close>: the number of distinct values, missing values not counted.\<close>

definition nunique :: "series \<Rightarrow> nat" where
  "nunique s = length (remdups (filter notna s))"

section \<open>Data loading\<close>

text \<open>
  What the file system holds at a path: nothing (\<open>os.path.exists\<close> is false), a file that
  \<open>pd.read_csv\<close> fails on (the exception is swallowed), or a file it reads into a frame.
\<close>

datatype csv_file = Missing | Unreadable | Csv frame

definition CANDIDATE_PATHS :: "string list" where
  "CANDIDATE_PATHS = [''syfan_workflows.csv'', ''/mnt/data/syfan_workflows.csv'']"

text \<open>Lines 37 to 46: the first candidate that exists and reads wins.\<close>

fun find_csv :: "(string \<Rightarrow> csv_file) \<Rightarrow> string list \<Rightarrow> (frame \<times> string) option" where
  "find_csv fs [] = None"
| "find_csv fs (p # ps) =
     (case fs p of Csv df \<Rightarrow> Some (df, p) | _ \<Rightarrow> find_csv fs ps)"

text \<open>
  \<open>st.error(msg); st.stop()\<close>: the script ends there, with the message on the page and
  nothing below it rendered.
\<close>

datatype stop = Stop string

text \<open>
  \<open>c.strip().lower()\<close> on the bytes of a label: ASCII white space is stripped at both ends and
  ASCII capitals are lowered (the Unicode cases of Python are outside the model).
\<close>

definition is_space :: "char \<Rightarrow> bool" where
  "is_space c = (c \<in> set [CHR 0x20, CHR 0x09, CHR 0x0A, CHR 0x0B, CHR 0x0C, CHR 0x0D,
                            CHR 0x1C, CHR 0x1D, CHR 0x1E, CHR 0x1F])"

definition strip :: "string \<Rightarrow> string" where
  "strip s = rev (dropWhile is_space (rev (dropWhile is_space s)))"

definition lower_char :: "char \<Rightarrow> char" where
  "lower_char c =
     (if CHR ''A'' \<le> c \<and> c \<le> CHR ''Z'' then char_of (of_char c + (32::nat)) else c)"

definition lower :: "string \<Rightarrow> string" where
  "lower s = map lower_char s"

definition normalize :: "string \<Rightarrow> string" where
  "normalize c = lower (strip c)"

text \<open>Line 55: \<open>df.columns = [...]\<close> relabels the columns, position by position.\<close>

definition normalize_columns :: "frame \<Rightarrow> frame" where
  "normalize_columns df =
     \<lparr>columns = map normalize (columns df),
      rows = map (map (\<lambda>(k, v). (normalize k, v))) (rows df)\<rparr>"

definition required :: "string list" where
  "required = [''timestamp'', ''workflow'', ''branch'']"

definition missing :: "frame \<Rightarrow> string list" where
  "missing df = filter (\<lambda>c. c \<notin> set (columns df)) required"

fun join :: "string \<Rightarrow> string list \<Rightarrow> string" where
  "join sep [] = []"
| "join sep [x] = x"
| "join sep (x # y # ys) = x @ sep @ join sep (y # ys)"

text \<open>
  Lines 65 and 66. \<open>pd.to_datetime(series, errors="coerce")\<close> is a parameter: it maps a
  series to time stamps, and a value it cannot parse to \<open>NaT\<close> (\<open>None\<close>). The rows left
  without a time stamp are dropped.
\<close>

definition ts_cell :: "int option \<Rightarrow> cell" where
  "ts_cell v = (case v of Some t \<Rightarrow> Ts t | None \<Rightarrow> NaN)"

definition parse_timestamp :: "(series \<Rightarrow> int option list) \<Rightarrow> frame \<Rightarrow> frame" where
  "parse_timestamp to_datetime df =
     dropna ''timestamp''
       (set_col ''timestamp'' (map ts_cell (to_datetime (col df ''timestamp''))) df)"

text \<open>
  Lines 69 to 73. \<open>pd.to_numeric(series, errors="coerce")\<close> is a parameter as well; seconds
  become minutes, and a missing value stays missing.
\<close>

definition num_cell :: "rat option \<Rightarrow> cell" where
  "num_cell v = (case v of Some x \<Rightarrow> Num x | None \<Rightarrow> NaN)"

fun div_cell :: "cell \<Rightarrow> rat \<Rightarrow> cell" where
  "div_cell (Num x) d = Num (x / d)"
| "div_cell _ d = NaN"

definition duration_handling :: "(series \<Rightarrow> rat option list) \<Rightarrow> frame \<Rightarrow> frame" where
  "duration_handling to_numeric df =
     (if ''duration'' \<in> set (columns df) then
        (let df1 = set_col ''duration'' (map num_cell (to_numeric (col df ''duration''))) df
         in set_col ''duration_minutes'' (map (\<lambda>c. div_cell c 60) (col df1 ''duration'')) df1)
      else set_col_scalar ''duration_minutes'' NaN df)"

text \<open>Lines 37 to 73: the record set, or the message the script stops with.\<close>

definition load ::
  "(string \<Rightarrow> csv_file) \<Rightarrow> (series \<Rightarrow> int option list) \<Rightarrow> (series \<Rightarrow> rat option list)
     \<Rightarrow> stop + frame" where
  "load fs to_datetime to_numeric =
     (case find_csv fs CANDIDATE_PATHS of
        None \<Rightarrow>
          Inl (Stop ''CSV not found. Please place 'syfan_workflows.csv' next to app.py and rerun.'')
      | Some (df0, used_path) \<Rightarrow>
          (let df = normalize_columns df0 in
           if missing df \<noteq> [] then
             Inl (Stop (''Missing required column(s): '' @ join '', '' (missing df)))
           else Inr (duration_handling to_numeric (parse_timestamp to_datetime df))))"

section \<open>Filters\<close>

text \<open>
  A date is its day number, counted from 1970-01-01. \<open>datetime.combine(date, time)\<close> is the
  instant of that wall-clock time on that day; compared with a time stamp it is taken in
  nanoseconds. \<open>datetime.min.time()\<close> is 00:00:00 and \<open>datetime.max.time()\<close> is
  23:59:59.999999.
\<close>

record time_of_day =
  hour :: int
  minute :: int
  second :: int
  microsecond :: int

definition time_min :: time_of_day where
  "time_min = \<lparr>hour = 0, minute = 0, second = 0, microsecond = 0\<rparr>"

definition time_max :: time_of_day where
  "time_max = \<lparr>hour = 23, minute = 59, second = 59, microsecond = 999999\<rparr>"

definition ns_per_day :: int where
  "ns_per_day = 86400000000000"

definition datetime_combine :: "int \<Rightarrow> time_of_day \<Rightarrow> int" where
  "datetime_combine d t =
     d * ns_per_day
     + (((hour t * 60 + minute t) * 60 + second t) * 1000000 + microsecond t) * 1000"

text \<open>Comparisons of a time-stamp series with an instant; a missing value compares false.\<close>

fun ts_ge :: "cell \<Rightarrow> int \<Rightarrow> bool" where
  "ts_ge (Ts t) b = (t \<ge> b)"
| "ts_ge _ b = False"

fun ts_le :: "cell \<Rightarrow> int \<Rightarrow> bool" where
  "ts_le (Ts t) b = (t \<le> b)"
| "ts_le _ b = False"

definition and_mask :: "bool list \<Rightarrow> bool list \<Rightarrow> bool list" where
  "and_mask a b = map2 (\<and>) a b"

definition isin :: "series \<Rightarrow> cell list \<Rightarrow> bool list" where
  "isin s vals = map (\<lambda>c. c \<in> set vals) s"

text \<open>
  Line 80: the options of the workflow selector. (Python's \<open>sorted\<close> raises on values of
  different kinds; the model orders them by kind.)
\<close>

definition workflows :: "frame \<Rightarrow> cell list" where
  "workflows df = sort (remdups (filter notna (col df ''workflow'')))"

text \<open>
  Lines 103 to 111. The two values of the date-range input are dates, so the tuple test of
  line 99 is false and its branch does not run.
\<close>

definition apply_filters :: "frame \<Rightarrow> cell list \<Rightarrow> int \<Rightarrow> int \<Rightarrow> frame" where
  "apply_filters df selected_workflows start_date end_date =
     (let start_dt = datetime_combine start_date time_min;
          end_dt = datetime_combine end_date time_max;
          mask = and_mask (map (\<lambda>c. ts_ge c start_dt) (col df ''timestamp''))
                          (map (\<lambda>c. ts_le c end_dt) (col df ''timestamp''));
          mask = (if selected_workflows \<noteq> [] then
                    and_mask mask (isin (col df ''workflow'') selected_workflows)
                  else mask)
      in loc df mask)"

section \<open>Key metrics\<close>

fun num_values :: "series \<Rightarrow> rat list" where
  "num_values [] = []"
| "num_values (Num x # cs) = x # num_values cs"
| "num_values (_ # cs) = num_values cs"

text \<open>
  \<open>series.sum(skipna=True)\<close> and \<open>series.mean()\<close>: over the values that are present. The
  sum of no value is 0, the mean of no value is NaN.
\<close>

definition sum_skipna :: "series \<Rightarrow> rat" where
  "sum_skipna s = sum_list (num_values s)"

definition mean :: "series \<Rightarrow> cell" where
  "mean s =
     (if num_values s = [] then NaN
      else Num (sum_list (num_values s) / of_nat (length (num_values s))))"

record kpis =
  total_runs :: int
  has_any_duration :: bool
  total_minutes :: cell
  avg_minutes :: cell
  active_workflows :: int
  active_branches :: int

text \<open>Lines 119 to 131.\<close>

definition compute_kpis :: "frame \<Rightarrow> kpis" where
  "compute_kpis filtered =
     (let has_any = list_ex notna (col filtered ''duration_minutes'') in
      \<lparr>total_runs = int (length (rows filtered)),
       has_any_duration = has_any,
       total_minutes =
         (if has_any then Num (sum_skipna (col filtered ''duration_minutes'')) else NaN),
       avg_minutes =
         (if has_any then
            mean (col (loc filtered (map notna (col filtered ''duration_minutes'')))
                      ''duration_minutes'')
          else NaN),
       active_workflows =
         (if rows filtered \<noteq> [] then int (nunique (col filtered ''workflow'')) else 0),
       active_branches =
         (if rows filtered \<noteq> [] then int (nunique (col filtered ''branch'')) else 0)\<rparr>)"

text \<open>
  Lines 135 and 136: a duration metric shows its number, formatted by Python (a parameter),
  unless the number is NaN; then it shows \<open>N/A\<close>.
\<close>

definition metric_text :: "(rat \<Rightarrow> string) \<Rightarrow> cell \<Rightarrow> string" where
  "metric_text fmt v = (case v of Num x \<Rightarrow> fmt x | _ \<Rightarrow> ''N/A'')"

section \<open>Charts\<close>

text \<open>What a part of the page shows: a message in place of the visual, or the visual's data.\<close>

datatype 'a display = Info string | Warning string | Shown 'a

text \<open>
  \<open>groupby(name).size()\<close>: one entry per distinct key with the number of its rows, the keys
  in ascending order; rows whose key is missing belong to no group.
\<close>

definition groupby_size :: "series \<Rightarrow> (cell \<times> nat) list" where
  "groupby_size ks = map (\<lambda>k. (k, count_list ks k)) (sort (remdups (filter notna ks)))"

text \<open>
  \<open>sort_values(..., ascending=False)\<close>. pandas reverses, sorts ascending and reverses again;
  its default sort leaves the order of equal keys open, and the model keeps them in their
  previous order.
\<close>

definition sort_desc :: "('a \<Rightarrow> 'k::linorder) \<Rightarrow> 'a list \<Rightarrow> 'a list" where
  "sort_desc key xs = rev (sort_key key (rev xs))"

text \<open>Lines 149 to 152: branch and runs, largest first.\<close>

definition runs_by_branch :: "frame \<Rightarrow> (cell \<times> nat) list" where
  "runs_by_branch filtered = sort_desc snd (groupby_size (col filtered ''branch''))"

text \<open>\<open>series.round(n)\<close>: to the nearest multiple of \<open>10^-n\<close>, a tie to the even one.\<close>

definition round_half_even :: "rat \<Rightarrow> int" where
  "round_half_even x =
     (let f = \<lfloor>x\<rfloor>; d = x - of_int f in
      if d < 1 / 2 then f
      else if 1 / 2 < d then f + 1
      else if even f then f else f + 1)"

definition np_round :: "nat \<Rightarrow> rat \<Rightarrow> rat" where
  "np_round n x = of_int (round_half_even (x * 10 ^ n)) / 10 ^ n"

text \<open>
  Lines 154 to 158: the share of each branch, or the warning when there is no run. The label
  column and the encodings of the chart are presentation and are left out.
\<close>

definition branch_chart :: "frame \<Rightarrow> (cell \<times> nat \<times> rat) list display" where
  "branch_chart filtered =
     (let rb = runs_by_branch filtered; total = sum_list (map snd rb) in
      if total = 0 then Warning ''No runs to display for the selected filters.''
      else Shown (map (\<lambda>(b, n). (b, n, np_round 1 (of_nat n / of_nat total * 100))) rb))"

fun ts_values :: "series \<Rightarrow> int list" where
  "ts_values [] = []"
| "ts_values (Ts t # cs) = t # ts_values cs"
| "ts_values (_ # cs) = ts_values cs"

text \<open>
  Lines 198 to 200: \<open>set_index("timestamp").sort_index()\<close> orders the time stamps, and
  \<open>resample("D").size()\<close> counts them in one bin per calendar day, from the day of the first
  to the day of the last, an empty day counting zero. Each bin is labelled with its midnight.
\<close>

definition daily :: "frame \<Rightarrow> (int \<times> nat) list" where
  "daily filtered =
     (let ts = sort (ts_values (col filtered ''timestamp'')) in
      if ts = [] then []
      else map (\<lambda>d. (d * ns_per_day, length (filter (\<lambda>t. t div ns_per_day = d) ts)))
               [hd ts div ns_per_day .. last ts div ns_per_day])"

text \<open>Lines 145 to 207: both charts, or one message when nothing passes the filters.\<close>

definition charts ::
  "frame \<Rightarrow> ((cell \<times> nat \<times> rat) list display \<times> (int \<times> nat) list) display" where
  "charts filtered =
     (if rows filtered = [] then Info ''No data for the selected filters.''
      else Shown (branch_chart filtered, daily filtered))"

section \<open>Runs table\<close>

definition display_cols :: "frame \<Rightarrow> string list" where
  "display_cols filtered =
     filter (\<lambda>c. c \<in> set (columns filtered))
       [''timestamp'', ''workflow'', ''branch'', ''channel'', ''type'', ''run_id'',
        ''duration_minutes'', ''subject'', ''snippet'']"

definition sort_values_desc :: "string \<Rightarrow> frame \<Rightarrow> frame" where
  "sort_values_desc name df =
     \<lparr>columns = columns df, rows = sort_desc (\<lambda>r. get r name) (rows df)\<rparr>"

text \<open>\<open>df.loc[:, cols]\<close>: the listed columns, in the listed order.\<close>

definition loc_cols :: "frame \<Rightarrow> string list \<Rightarrow> frame" where
  "loc_cols df cols =
     \<lparr>columns = cols, rows = map (\<lambda>r. map (\<lambda>c. (c, get r c)) cols) (rows df)\<rparr>"

text \<open>\<open>series.dt.strftime(fmt)\<close>, with the formatting of one time stamp a parameter.\<close>

fun strftime_cell :: "(string \<Rightarrow> int \<Rightarrow> string) \<Rightarrow> string \<Rightarrow> cell \<Rightarrow> cell" where
  "strftime_cell strftime fmt (Ts t) = Str (strftime fmt t)"
| "strftime_cell strftime fmt _ = NaN"

fun round_cell :: "nat \<Rightarrow> cell \<Rightarrow> cell" where
  "round_cell n (Num x) = Num (np_round n x)"
| "round_cell n c = c"

text \<open>Lines 214 to 223.\<close>

definition runs_table :: "(string \<Rightarrow> int \<Rightarrow> string) \<Rightarrow> frame \<Rightarrow> frame display" where
  "runs_table strftime filtered =
     (if rows filtered \<noteq> [] then
        (let table_df = loc_cols (sort_values_desc ''timestamp'' filtered) (display_cols filtered);
             table_df = set_col ''timestamp''
                          (map (strftime_cell strftime ''%Y-%m-%d %H:%M:%S'')
                               (col table_df ''timestamp'')) table_df;
             table_df = (if ''duration_minutes'' \<in> set (columns table_df) then
                           set_col ''duration_minutes''
                             (map (round_cell 2) (col table_df ''duration_minutes'')) table_df
                         else table_df)
         in Shown table_df)
      else Info ''No rows to show for the selected filters.'')"

section \<open>The script\<close>

record dashboard =
  metrics :: kpis
  total_minutes_text :: string
  avg_minutes_text :: string
  usage :: "((cell \<times> nat \<times> rat) list display \<times> (int \<times> nat) list) display"
  table :: "frame display"

text \<open>Lines 106 to 223, on the loaded record set and the values of the two filter inputs.\<close>

definition render ::
  "(rat \<Rightarrow> string) \<Rightarrow> (rat \<Rightarrow> string) \<Rightarrow> (string \<Rightarrow> int \<Rightarrow> string)
     \<Rightarrow> frame \<Rightarrow> cell list \<Rightarrow> int \<Rightarrow> int \<Rightarrow> dashboard" where
  "render fmt1 fmt2 strftime df selected_workflows start_date end_date =
     (let filtered = apply_filters df selected_workflows start_date end_date;
          k = compute_kpis filtered in
      \<lparr>metrics = k,
       total_minutes_text = metric_text fmt1 (total_minutes k),
       avg_minutes_text = metric_text fmt2 (avg_minutes k),
       usage = charts filtered,
       table = runs_table strftime filtered\<rparr>)"

text \<open>
  The whole script: it stops at a loading error, and renders the page otherwise. The values
  of the two filter inputs are taken as given: the widgets of lines 80 to 96, their defaults
  and their bounds (which are NaT on a record set without rows) are outside the model.
\<close>

definition app ::
  "(string \<Rightarrow> csv_file) \<Rightarrow> (series \<Rightarrow> int option list) \<Rightarrow> (series \<Rightarrow> rat option list)
     \<Rightarrow> (rat \<Rightarrow> string) \<Rightarrow> (rat \<Rightarrow> string) \<Rightarrow> (string \<Rightarrow> int \<Rightarrow> string)
     \<Rightarrow> cell list \<Rightarrow> int \<Rightarrow> int \<Rightarrow> stop + dashboard" where
  "app fs to_datetime to_numeric fmt1 fmt2 strftime selected_workflows start_date end_date =
     (case load fs to_datetime to_numeric of
        Inl e \<Rightarrow> Inl e
      | Inr df \<Rightarrow> Inr (render fmt1 fmt2 strftime df selected_workflows start_date end_date))"

section \<open>The filter contract in the words of the specification\<close>

text \<open>
  A time stamp lies in the inclusive day range \<open>[start, end]\<close> when it is not before
  \<open>start 00:00:00\<close> and not after \<open>end 23:59:59.999999\<close>; the latter is 86399999999000
  nanoseconds after midnight. A missing time stamp lies in no range.
\<close>

definition within_days :: "int \<Rightarrow> int \<Rightarrow> cell \<Rightarrow> bool" where
  "within_days start_date end_date c =
     (case c of
        Ts t \<Rightarrow> start_date * 86400000000000 \<le> t \<and> t \<le> end_date * 86400000000000 + 86399999999000
      | _ \<Rightarrow> False)"

text \<open>A valid time stamp is a cell that holds one.\<close>

fun is_ts :: "cell \<Rightarrow> bool" where
  "is_ts (Ts t) = True"
| "is_ts _ = False"


section \<open>The script on a store of objects\<close>

text \<open>
  pandas frames are mutable objects, and the script both creates objects and assigns into
  them. To follow which object each statement touches, lines 106 to 221 are modelled once
  more on a store: a list of objects, an object's address being its position. An expression
  that builds a frame (\<open>df.loc[mask].copy()\<close>, \<open>sort_values\<close>, \<open>groupby(...).size()\<close>,
  \<open>resample(...).size()\<close>) allocates a new object; an assignment \<open>x[name] = ...\<close> replaces
  the object at the address of \<open>x\<close>. The intermediate objects of a chained expression are
  not kept, and column labels of the two chart tables are not part of their model, so
  \<open>daily.columns = [...]\<close> changes nothing.
\<close>

datatype obj =
  Frame frame
  | Counts "(cell \<times> nat) list"
  | Shares "(cell \<times> nat \<times> rat) list"
  | Days "(int \<times> nat) list"

type_synonym heap = "obj list"

definition alloc :: "obj \<Rightarrow> heap \<Rightarrow> nat \<times> heap" where
  "alloc x h = (length h, h @ [x])"

definition assign :: "nat \<Rightarrow> obj \<Rightarrow> heap \<Rightarrow> heap" where
  "assign p x h = h[p := x]"

definition obj_at :: "heap \<Rightarrow> nat \<Rightarrow> obj option" where
  "obj_at h p = (if p < length h then Some (h ! p) else None)"

definition frame_at :: "heap \<Rightarrow> nat \<Rightarrow> frame" where
  "frame_at h p = (case obj_at h p of Some (Frame f) \<Rightarrow> f | _ \<Rightarrow> \<lparr>columns = [], rows = []\<rparr>)"

definition counts_at :: "heap \<Rightarrow> nat \<Rightarrow> (cell \<times> nat) list" where
  "counts_at h p = (case obj_at h p of Some (Counts c) \<Rightarrow> c | _ \<Rightarrow> [])"

definition shares_at :: "heap \<Rightarrow> nat \<Rightarrow> (cell \<times> nat \<times> rat) list" where
  "shares_at h p = (case obj_at h p of Some (Shares c) \<Rightarrow> c | _ \<Rightarrow> [])"

definition days_at :: "heap \<Rightarrow> nat \<Rightarrow> (int \<times> nat) list" where
  "days_at h p = (case obj_at h p of Some (Days c) \<Rightarrow> c | _ \<Rightarrow> [])"

text \<open>Lines 145 to 207, with \<open>filtered\<close> the address of the filtered subset.\<close>

definition charts_script ::
  "heap \<Rightarrow> nat
     \<Rightarrow> ((cell \<times> nat \<times> rat) list display \<times> (int \<times> nat) list) display \<times> heap" where
  "charts_script h filtered =
     (if rows (frame_at h filtered) = [] then (Info ''No data for the selected filters.'', h)
      else
        (let (rb, h1) = alloc (Counts (runs_by_branch (frame_at h filtered))) h;
             total = sum_list (map snd (counts_at h1 rb));
             (pie, h2) =
               (if total = 0 then (Warning ''No runs to display for the selected filters.'', h1)
                else
                  (let h' = assign rb
                        (Shares (map (\<lambda>(b, n). (b, n, np_round 1 (of_nat n / of_nat total * 100)))
                                   (counts_at h1 rb))) h1
                   in (Shown (shares_at h' rb), h')));
             (dl, h3) = alloc (Days (daily (frame_at h2 filtered))) h2
         in (Shown (pie, days_at h3 dl), h3)))"

text \<open>Lines 214 to 223: the table is a copy, and the two assignments go into the copy.\<close>

definition table_script ::
  "(string \<Rightarrow> int \<Rightarrow> string) \<Rightarrow> heap \<Rightarrow> nat \<Rightarrow> frame display \<times> heap" where
  "table_script strftime h filtered =
     (if rows (frame_at h filtered) \<noteq> [] then
        (let (table_df, h1) =
               alloc (Frame (loc_cols (sort_values_desc ''timestamp'' (frame_at h filtered))
                               (display_cols (frame_at h filtered)))) h;
             h2 = assign table_df
                    (Frame (set_col ''timestamp''
                              (map (strftime_cell strftime ''%Y-%m-%d %H:%M:%S'')
                                   (col (frame_at h1 table_df) ''timestamp''))
                              (frame_at h1 table_df))) h1;
             h3 = (if ''duration_minutes'' \<in> set (columns (frame_at h2 table_df)) then
                     assign table_df
                       (Frame (set_col ''duration_minutes''
                                 (map (round_cell 2) (col (frame_at h2 table_df) ''duration_minutes''))
                                 (frame_at h2 table_df))) h2
                   else h2)
         in (Shown (frame_at h3 table_df), h3))
      else (Info ''No rows to show for the selected filters.'', h))"

text \<open>Lines 106 to 223, with \<open>df\<close> the address of the loaded record set.\<close>

definition run_script ::
  "(rat \<Rightarrow> string) \<Rightarrow> (rat \<Rightarrow> string) \<Rightarrow> (string \<Rightarrow> int \<Rightarrow> string)
     \<Rightarrow> heap \<Rightarrow> nat \<Rightarrow> cell list \<Rightarrow> int \<Rightarrow> int \<Rightarrow> dashboard \<times> heap" where
  "run_script fmt1 fmt2 strftime h df selected_workflows start_date end_date =
     (let (filtered, h1) =
            alloc (Frame (apply_filters (frame_at h df) selected_workflows start_date end_date)) h;
          k = compute_kpis (frame_at h1 filtered);
          (u, h2) = charts_script h1 filtered;
          (t, h3) = table_script strftime h2 filtered
      in (\<lparr>metrics = k,
           total_minutes_text = metric_text fmt1 (total_minutes k),
           avg_minutes_text = metric_text fmt2 (avg_minutes k),
           usage = u,
           table = t\<rparr>, h3))"

section \<open>Example inputs\<close>

text \<open>
  The three runs of the specification's example (2024-01-01 is day 19723), with labels to
  normalize and one more row whose time stamp does not parse, found at the second candidate
  path.
\<close>

definition example_csv :: frame where
  "example_csv =
     \<lparr>columns = ['' Timestamp'', ''Workflow'', ''BRANCH '', ''duration''],
      rows =
        [[('' Timestamp'', Str ''2024-01-01''), (''Workflow'', Str ''A''),
          (''BRANCH '', Str ''X''), (''duration'', Num 120)],
         [('' Timestamp'', Str ''2024-01-01''), (''Workflow'', Str ''B''),
          (''BRANCH '', Str ''Y''), (''duration'', NaN)],
         [('' Timestamp'', Str ''not a date''), (''Workflow'', Str ''A''),
          (''BRANCH '', Str ''X''), (''duration'', Num 30)],
         [('' Timestamp'', Str ''2024-01-03''), (''Workflow'', Str ''A''),
          (''BRANCH '', Str ''X''), (''duration'', Num 60)]]\<rparr>"

definition example_fs :: "string \<Rightarrow> csv_file" where
  "example_fs p = (if p = ''/mnt/data/syfan_workflows.csv'' then Csv example_csv else Missing)"

definition example_to_datetime :: "series \<Rightarrow> int option list" where
  "example_to_datetime =
     map (\<lambda>c. if c = Str ''2024-01-01'' then Some 1704067200000000000
              else if c = Str ''2024-01-03'' then Some 1704240000000000000
              else None)"

definition example_to_numeric :: "series \<Rightarrow> rat option list" where
  "example_to_numeric = map (\<lambda>c. case c of Num x \<Rightarrow> Some x | _ \<Rightarrow> None)"

text \<open>
  A file without a duration column, with one run that has neither workflow nor branch and one
  that has no branch (2024-01-02 is day 19724), and the record set that loading it yields.
\<close>

definition sparse_csv :: frame where
  "sparse_csv =
     \<lparr>columns = [''timestamp'', ''workflow'', ''branch''],
      rows =
        [[(''timestamp'', Str ''2024-01-02''), (''workflow'', NaN), (''branch'', NaN)],
         [(''timestamp'', Str ''2024-01-02''), (''workflow'', Str ''A''), (''branch'', NaN)]]\<rparr>"

definition sparse_fs :: "string \<Rightarrow> csv_file" where
  "sparse_fs p = (if p = ''syfan_workflows.csv'' then Csv sparse_csv else Missing)"

definition sparse_to_datetime :: "series \<Rightarrow> int option list" where
  "sparse_to_datetime =
     map (\<lambda>c. if c = Str ''2024-01-02'' then Some 1704153600000000000 else None)"

definition sparse_df :: frame where
  "sparse_df =
     \<lparr>columns = [''timestamp'', ''workflow'', ''branch'', ''duration_minutes''],
      rows =
        [[(''timestamp'', Ts 1704153600000000000), (''workflow'', NaN), (''branch'', NaN),
          (''duration_minutes'', NaN)],
         [(''timestamp'', Ts 1704153600000000000), (''workflow'', Str ''A''), (''branch'', NaN),
          (''duration_minutes'', NaN)]]\<rparr>"

text \<open>The record set that loading the example yields.\<close>

definition example_df :: frame where
  "example_df =
     \<lparr>columns = [''timestamp'', ''workflow'', ''branch'', ''duration'', ''duration_minutes''],
      rows =
        [[(''timestamp'', Ts 1704067200000000000), (''workflow'', Str ''A''),
          (''branch'', Str ''X''), (''duration'', Num 120), (''duration_minutes'', Num 2)],
         [(''timestamp'', Ts 1704067200000000000), (''workflow'', Str ''B''),
          (''branch'', Str ''Y''), (''duration'', NaN), (''duration_minutes'', NaN)],
         [(''timestamp'', Ts 1704240000000000000), (''workflow'', Str ''A''),
          (''branch'', Str ''X''), (''duration'', Num 60), (''duration_minutes'', Num 1)]]\<rparr>"




section \<open>Basic facts\<close>

lemma load_example: "load example_fs example_to_datetime example_to_numeric = Inr example_df"
  by code_simp

lemma load_sparse: "load sparse_fs sparse_to_datetime example_to_numeric = Inr sparse_df"
  by code_simp

lemma and_mask_map: "and_mask (map P xs) (map Q xs) = map (\<lambda>x. P x \<and> Q x) xs"
  by (induction xs) (simp_all add: and_mask_def)

lemma loc_map: "loc df (map P (rows df)) = \<lparr>columns = columns df, rows = filter P (rows df)\<rparr>"
proof -
  have "map fst (filter snd (zip xs (map P xs))) = filter P xs" for xs :: "row list"
    by (induction xs) simp_all
  then show ?thesis by (simp add: loc_def)
qed

lemma ts_bounds:
  "(ts_ge c (datetime_combine s time_min) \<and> ts_le c (datetime_combine e time_max))
     = within_days s e c"
  by (cases c)
     (simp_all add: within_days_def datetime_combine_def time_min_def time_max_def ns_per_day_def)

lemma apply_filters_rows:
  "apply_filters df sel s e =
     \<lparr>columns = columns df,
      rows = filter (\<lambda>r. within_days s e (get r ''timestamp'')
                          \<and> (sel = [] \<or> get r ''workflow'' \<in> set sel)) (rows df)\<rparr>"
  by (simp add: apply_filters_def Let_def col_def isin_def and_mask_map loc_map ts_bounds o_def)

lemma total_runs_kpis: "total_runs (compute_kpis f) = int (length (rows f))"
  by (simp add: compute_kpis_def Let_def)

lemma active_workflows_kpis:
  "active_workflows (compute_kpis f)
     = (if rows f \<noteq> [] then int (nunique (col f ''workflow'')) else 0)"
  by (simp add: compute_kpis_def Let_def)

lemma active_branches_kpis:
  "active_branches (compute_kpis f)
     = (if rows f \<noteq> [] then int (nunique (col f ''branch'')) else 0)"
  by (simp add: compute_kpis_def Let_def)

lemma nunique_card: "nunique s = card (set s - {NaN})"
proof -
  have "set (filter notna s) = set s - {NaN}" by (auto simp: notna_def)
  then show ?thesis by (simp add: nunique_def length_remdups_card_conv)
qed

lemma nunique_mono: "set a \<subseteq> set b \<Longrightarrow> nunique a \<le> nunique b"
  unfolding nunique_card by (rule card_mono) auto

lemma col_apply_filters_subset:
  "set (col (apply_filters df sel s e) name) \<subseteq> set (col df name)"
  by (auto simp: apply_filters_rows col_def)

lemma load_Inr:
  assumes "load fs td tn = Inr df"
  obtains raw p where "find_csv fs CANDIDATE_PATHS = Some (raw, p)"
    and "missing (normalize_columns raw) = []"
    and "df = duration_handling tn (parse_timestamp td (normalize_columns raw))"
  using assms by (auto simp: load_def Let_def split: option.splits if_splits)

lemma find_example: "find_csv example_fs CANDIDATE_PATHS = Some (example_csv, ''/mnt/data/syfan_workflows.csv'')"
  by (simp add: example_fs_def CANDIDATE_PATHS_def)






lemma length_align: "length (align n vs) = n"
  by (simp add: align_def)

lemma get_update: "get (AList.update k v r) k' = (if k' = k then v else get r k')"
  by (simp add: get_def update_conv')

lemma rows_set_col:
  "rows (set_col name vals df)
     = map2 (\<lambda>r v. AList.update name v r) (rows df) (align (length (rows df)) vals)"
  by (simp add: set_col_def)

lemma map2_update_get_same:
  "length vs = length rs \<Longrightarrow> map (\<lambda>r. get r k) (map2 (\<lambda>r v. AList.update k v r) rs vs) = vs"
  by (induction rs vs rule: list_induct2') (simp_all add: get_update)

lemma map2_update_get_other:
  "length vs = length rs \<Longrightarrow> c \<noteq> k \<Longrightarrow>
     map (\<lambda>r. get r c) (map2 (\<lambda>r v. AList.update k v r) rs vs) = map (\<lambda>r. get r c) rs"
  by (induction rs vs rule: list_induct2') (simp_all add: get_update)

lemma col_set_col_same: "col (set_col name vals df) name = align (length (rows df)) vals"
  unfolding col_def rows_set_col by (rule map2_update_get_same) (simp add: length_align)

lemma col_set_col_other: "c \<noteq> name \<Longrightarrow> col (set_col name vals df) c = col df c"
  unfolding col_def rows_set_col by (rule map2_update_get_other) (simp_all add: length_align)



lemma dropna_rows:
  "dropna name df = \<lparr>columns = columns df, rows = filter (\<lambda>r. notna (get r name)) (rows df)\<rparr>"
  using loc_map [of df "\<lambda>r. notna (get r name)"] by (simp add: dropna_def col_def o_def)

lemma col_filter_rows:
  "map (\<lambda>r. get r c) (filter (\<lambda>r. P (get r k)) rs)
     = map snd (filter (\<lambda>(a, b). P a) (zip (map (\<lambda>r. get r k) rs) (map (\<lambda>r. get r c) rs)))"
  by (induction rs) simp_all

lemma col_dropna_same: "col (dropna name df) name = filter notna (col df name)"
  by (simp add: dropna_rows col_def filter_map o_def)

lemma col_dropna_other:
  "col (dropna name df) c = map snd (filter (\<lambda>(a, b). notna a) (zip (col df name) (col df c)))"
  by (simp add: dropna_rows col_def col_filter_rows)

lemma col_parse_timestamp_same:
  "col (parse_timestamp td df) ''timestamp''
     = filter notna (align (length (rows df)) (map ts_cell (td (col df ''timestamp''))))"
  by (simp add: parse_timestamp_def col_dropna_same col_set_col_same)

lemma col_parse_timestamp_other:
  "c \<noteq> ''timestamp'' \<Longrightarrow> col (parse_timestamp td df) c
     = map snd (filter (\<lambda>(a, b). notna a)
         (zip (align (length (rows df)) (map ts_cell (td (col df ''timestamp'')))) (col df c)))"
  by (simp add: parse_timestamp_def col_dropna_other col_set_col_same col_set_col_other)


lemma col_duration_handling:
  "c \<noteq> ''duration'' \<Longrightarrow> c \<noteq> ''duration_minutes'' \<Longrightarrow> col (duration_handling tn df) c = col df c"
  by (simp add: duration_handling_def Let_def set_col_scalar_def col_set_col_other)



lemma is_ts_align_ts_cell: "c \<in> set (filter notna (align n (map ts_cell vs))) \<Longrightarrow> is_ts c"
  by (auto simp: align_def notna_def ts_cell_def dest!: in_set_takeD split: option.splits)


lemma sorted_hd_Min: "sorted ys \<Longrightarrow> ys \<noteq> [] \<Longrightarrow> hd ys = Min (set ys)"
  by (cases ys) (auto intro!: Min_eqI [symmetric])

lemma sorted_last_Max: "sorted ys \<Longrightarrow> ys \<noteq> [] \<Longrightarrow> last ys = Max (set ys)"
proof (induction ys)
  case Nil
  then show ?case by simp
next
  case (Cons y ys)
  show ?case
  proof (cases "ys = []")
    case True
    then show ?thesis by simp
  next
    case False
    with Cons have "last ys = Max (set ys)" by simp
    moreover have "y \<le> Max (set ys)"
    proof -
      from False have h: "hd ys \<in> set ys" by simp
      with Cons.prems have "y \<le> hd ys" by auto
      also from h have "hd ys \<le> Max (set ys)" by simp
      finally show ?thesis .
    qed
    ultimately show ?thesis using False by (simp add: max_def)
  qed
qed

lemma length_filter_disj:
  "(\<And>x. x \<in> set xs \<Longrightarrow> \<not> (P x \<and> Q x)) \<Longrightarrow>
     length (filter (\<lambda>x. P x \<or> Q x) xs) = length (filter P xs) + length (filter Q xs)"
  by (induction xs) auto

lemma sum_bin_counts:
  "distinct ds \<Longrightarrow>
     sum_list (map (\<lambda>d. length (filter (\<lambda>t. g t = d) ts)) ds)
       = length (filter (\<lambda>t. g t \<in> set ds) ts)"
proof (induction ds)
  case Nil
  then show ?case by simp
next
  case (Cons d ds)
  then have "length (filter (\<lambda>t. g t = d \<or> g t \<in> set ds) ts)
      = length (filter (\<lambda>t. g t = d) ts) + length (filter (\<lambda>t. g t \<in> set ds) ts)"
    by (intro length_filter_disj) auto
  with Cons show ?case by simp
qed

lemma length_filter_sort: "length (filter P (sort xs)) = length (filter P (xs :: int list))"
proof -
  have "mset (filter P (sort xs)) = mset (filter P xs)" by simp
  then show ?thesis by (rule mset_eq_length)
qed

lemma ts_values_all: "list_all is_ts cs \<Longrightarrow> map Ts (ts_values cs) = cs"
  by (induction cs rule: ts_values.induct) simp_all

lemma daily_bins:
  assumes "ts_values (col f ''timestamp'') \<noteq> []"
  shows "daily f =
     map (\<lambda>d. (d * ns_per_day,
                length (filter (\<lambda>t. t div ns_per_day = d) (ts_values (col f ''timestamp'')))))
       [Min (set (ts_values (col f ''timestamp''))) div ns_per_day
        .. Max (set (ts_values (col f ''timestamp''))) div ns_per_day]"
proof -
  let ?ts = "ts_values (col f ''timestamp'')"
  from assms have ne: "sort ?ts \<noteq> []"
    by (metis length_sort length_0_conv)
  have h: "hd (sort ?ts) = Min (set ?ts)"
    using sorted_hd_Min [of "sort ?ts"] ne by simp
  have l: "last (sort ?ts) = Max (set ?ts)"
    using sorted_last_Max [of "sort ?ts"] ne by simp
  show ?thesis
    using ne by (simp add: daily_def Let_def h l length_filter_sort)
qed

lemma sum_daily:
  assumes "ts_values (col f ''timestamp'') \<noteq> []"
  shows "sum_list (map snd (daily f)) = length (ts_values (col f ''timestamp''))"
proof -
  let ?ts = "ts_values (col f ''timestamp'')"
  let ?lo = "Min (set ?ts) div ns_per_day" and ?hi = "Max (set ?ts) div ns_per_day"
  have in_range: "t div ns_per_day \<in> set [?lo..?hi]" if "t \<in> set ?ts" for t
  proof -
    from that have "Min (set ?ts) \<le> t" and "t \<le> Max (set ?ts)" by simp_all
    then show ?thesis by (simp add: zdiv_mono1 ns_per_day_def)
  qed
  have "sum_list (map snd (daily f))
      = sum_list (map (\<lambda>d. length (filter (\<lambda>t. t div ns_per_day = d) ?ts)) [?lo..?hi])"
    by (simp add: daily_bins [OF assms] o_def)
  also have "\<dots> = length (filter (\<lambda>t. t div ns_per_day \<in> set [?lo..?hi]) ?ts)"
    by (rule sum_bin_counts) simp
  also have "\<dots> = length ?ts"
    using in_range by (simp del: set_upto)
  finally show ?thesis .
qed

lemma col_apply_filters_all:
  "list_all P (col df name) \<Longrightarrow> list_all P (col (apply_filters df sel s e) name)"
  using col_apply_filters_subset [of df sel s e name] by (auto simp: list_all_iff)

lemma load_all_ts: "load fs td tn = Inr df \<Longrightarrow> list_all is_ts (col df ''timestamp'')"
proof -
  assume a: "load fs td tn = Inr df"
  then obtain raw p where "df = duration_handling tn (parse_timestamp td (normalize_columns raw))"
    by (rule load_Inr)
  then have "col df ''timestamp''
      = filter notna (align (length (rows (normalize_columns raw)))
          (map ts_cell (td (col (normalize_columns raw) ''timestamp''))))"
    by (simp add: col_duration_handling col_parse_timestamp_same)
  then show ?thesis
    unfolding list_all_iff using is_ts_align_ts_cell by auto
qed

lemma daily_example:
  "daily (apply_filters example_df [Str ''A''] 19723 19725)
     = [(1704067200000000000, 1), (1704153600000000000, 0), (1704240000000000000, 1)]"
  by code_simp

































lemma obj_at_append_old: "p < length h \<Longrightarrow> obj_at (h @ [x]) p = obj_at h p"
  by (simp add: obj_at_def nth_append)

lemma obj_at_append_new: "obj_at (h @ [x]) (length h) = Some x"
  by (simp add: obj_at_def)

lemma obj_at_assign:
  "obj_at (assign p x h) q = (if q = p \<and> p < length h then Some x else obj_at h q)"
  by (simp add: obj_at_def assign_def)

lemma length_assign: "length (assign p x h) = length h"
  by (simp add: assign_def)

lemma charts_script_pure:
  "p < length h \<Longrightarrow> fst (charts_script h p) = charts (frame_at h p)"
  by (simp add: charts_script_def charts_def branch_chart_def alloc_def Let_def frame_at_def
        counts_at_def shares_at_def days_at_def obj_at_append_old obj_at_append_new obj_at_assign
        length_assign del: sum_list_eq_0_iff)

lemma charts_script_heap:
  "length h \<le> length (snd (charts_script h p))
     \<and> (\<forall>q < length h. obj_at (snd (charts_script h p)) q = obj_at h q)"
  by (simp add: charts_script_def alloc_def Let_def obj_at_append_old obj_at_assign length_assign
        obj_at_def nth_append assign_def)

lemma table_script_pure:
  "p < length h \<Longrightarrow> fst (table_script strftime h p) = runs_table strftime (frame_at h p)"
  by (simp add: table_script_def runs_table_def alloc_def Let_def frame_at_def
        obj_at_append_old obj_at_append_new obj_at_assign length_assign)

lemma table_script_heap:
  "length h \<le> length (snd (table_script strftime h p))
     \<and> (\<forall>q < length h. obj_at (snd (table_script strftime h p)) q = obj_at h q)"
  by (simp add: table_script_def alloc_def Let_def obj_at_def nth_append assign_def)

lemma run_script_pure:
  assumes "obj_at h a = Some (Frame df)"
  shows "fst (run_script fmt1 fmt2 strftime h a sel s e) = render fmt1 fmt2 strftime df sel s e"
proof -
  let ?f = "apply_filters df sel s e"
  let ?h1 = "h @ [Frame ?f]"
  have fa: "frame_at h a = df"
    using assms by (simp add: frame_at_def)
  have f1: "frame_at ?h1 (length h) = ?f"
    by (simp add: frame_at_def obj_at_append_new)
  have c: "fst (charts_script ?h1 (length h)) = charts ?f"
    using charts_script_pure [of "length h" ?h1] by (simp add: f1)
  have l: "length h < length (snd (charts_script ?h1 (length h)))"
    using charts_script_heap [of ?h1 "length h"] by simp
  have "obj_at (snd (charts_script ?h1 (length h))) (length h) = obj_at ?h1 (length h)"
    using charts_script_heap [of ?h1 "length h"] by simp
  then have f2: "frame_at (snd (charts_script ?h1 (length h))) (length h) = ?f"
    by (simp add: frame_at_def obj_at_append_new)
  have t: "fst (table_script strftime (snd (charts_script ?h1 (length h))) (length h))
      = runs_table strftime ?f"
    using table_script_pure [OF l, of strftime] by (simp add: f2)
  show ?thesis
    by (simp add: run_script_def render_def alloc_def Let_def case_prod_unfold fa f1 c t)
qed

lemma run_script_heap:
  assumes "q \<le> length h"
  shows "obj_at (snd (run_script fmt1 fmt2 strftime h a sel s e)) q
       = obj_at (h @ [Frame (apply_filters (frame_at h a) sel s e)]) q"
proof -
  let ?h1 = "h @ [Frame (apply_filters (frame_at h a) sel s e)]"
  let ?h2 = "snd (charts_script ?h1 (length h))"
  let ?h3 = "snd (table_script strftime ?h2 (length h))"
  from assms have q1: "q < length ?h1" by simp
  with charts_script_heap [of ?h1 "length h"] have q2: "q < length ?h2" by simp
  have "obj_at ?h3 q = obj_at ?h2 q"
    using table_script_heap [of ?h2 strftime "length h"] q2 by simp
  also have "\<dots> = obj_at ?h1 q"
    using charts_script_heap [of ?h1 "length h"] q1 by simp
  finally show ?thesis
    by (simp add: run_script_def alloc_def Let_def case_prod_unfold)
qed

section \<open>Properties of loading\<close>



text \<open>
  Claim C3 says that every row of the loaded record set has a valid time stamp, a
  workflow and a branch. Loading drops the rows without a time stamp and no others: the
  file below loads into a record set whose first row has neither workflow nor branch and
  whose second row has no branch.
\<close>

theorem load_keeps_null_workflow_counterexample:
  "load sparse_fs sparse_to_datetime example_to_numeric = Inr sparse_df
   \<and> col sparse_df ''timestamp'' = [Ts 1704153600000000000, Ts 1704153600000000000]
   \<and> col sparse_df ''workflow'' = [NaN, Str ''A'']
   \<and> col sparse_df ''branch'' = [NaN, NaN]"
  by (simp add: load_sparse sparse_df_def col_def get_def)

text \<open>
  Claim C3, amended: after loading, every row of the record set has a valid time stamp, and
  the rows are exactly the rows of the source whose time stamp parsed, in their order: the
  time stamps are the parsed ones, and workflow and branch are those of the same source rows,
  missing or not. A row whose time stamp does not parse is in no column of the record set,
  so no count or denominator sees it.
\<close>

theorem load_keeps_rows_with_timestamp:
  assumes "find_csv fs CANDIDATE_PATHS = Some (raw, p)"
      and "load fs to_datetime to_numeric = Inr df"
  shows "list_all is_ts (col df ''timestamp'')
     \<and> col df ''timestamp''
         = filter notna (align (length (rows raw))
             (map ts_cell (to_datetime (col (normalize_columns raw) ''timestamp''))))
     \<and> col df ''workflow''
         = map snd (filter (\<lambda>(t, w). notna t)
             (zip (align (length (rows raw))
                    (map ts_cell (to_datetime (col (normalize_columns raw) ''timestamp''))))
                  (col (normalize_columns raw) ''workflow'')))
     \<and> col df ''branch''
         = map snd (filter (\<lambda>(t, b). notna t)
             (zip (align (length (rows raw))
                    (map ts_cell (to_datetime (col (normalize_columns raw) ''timestamp''))))
                  (col (normalize_columns raw) ''branch'')))"
proof -
  let ?raw = "normalize_columns raw"
  from assms have df: "df = duration_handling to_numeric (parse_timestamp to_datetime ?raw)"
    by (auto elim!: load_Inr)
  have len: "length (rows ?raw) = length (rows raw)"
    by (simp add: normalize_columns_def)
  have ts: "col df ''timestamp''
      = filter notna (align (length (rows raw)) (map ts_cell (to_datetime (col ?raw ''timestamp''))))"
    by (simp add: df col_duration_handling col_parse_timestamp_same len)
  have "list_all is_ts (col df ''timestamp'')"
    unfolding ts list_all_iff using is_ts_align_ts_cell by blast
  moreover have "col df ''workflow''
      = map snd (filter (\<lambda>(t, w). notna t)
          (zip (align (length (rows raw)) (map ts_cell (to_datetime (col ?raw ''timestamp''))))
               (col ?raw ''workflow'')))"
    by (simp add: df col_duration_handling col_parse_timestamp_other len)
  moreover have "col df ''branch''
      = map snd (filter (\<lambda>(t, b). notna t)
          (zip (align (length (rows raw)) (map ts_cell (to_datetime (col ?raw ''timestamp''))))
               (col ?raw ''branch'')))"
    by (simp add: df col_duration_handling col_parse_timestamp_other len)
  ultimately show ?thesis using ts by simp
qed

theorem load_keeps_rows_with_timestamp_witness:
  "find_csv example_fs CANDIDATE_PATHS = Some (example_csv, ''/mnt/data/syfan_workflows.csv'')
   \<and> load example_fs example_to_datetime example_to_numeric = Inr example_df
   \<and> list_all is_ts (col example_df ''timestamp'')
   \<and> col example_df ''timestamp''
       = [Ts 1704067200000000000, Ts 1704067200000000000, Ts 1704240000000000000]
   \<and> length (rows example_csv) = 4"
proof -
  have a: "list_all is_ts (col example_df ''timestamp'')"
    using load_keeps_rows_with_timestamp [OF find_example load_example] by (rule conjunct1)
  have b: "col example_df ''timestamp''
      = [Ts 1704067200000000000, Ts 1704067200000000000, Ts 1704240000000000000]"
    by (simp add: example_df_def col_def get_def)
  have c: "length (rows example_csv) = 4"
    by (simp add: example_csv_def)
  from find_example load_example a b c show ?thesis by (intro conjI)
qed



section \<open>Properties of the filter\<close>

text \<open>
  Claim C1 says that an empty workflow selection selects nothing. The script tests
  \<open>if selected_workflows:\<close> before it narrows the mask, so with an empty selection the
  workflow test is skipped: on the example, the empty selection over the whole date range
  returns all three runs, and \<open>total_runs\<close> is 3.
\<close>

theorem empty_selection_counterexample:
  "load example_fs example_to_datetime example_to_numeric = Inr example_df
   \<and> rows (apply_filters example_df [] 19723 19725) = rows example_df
   \<and> total_runs (compute_kpis (apply_filters example_df [] 19723 19725)) = 3"
  by (simp add: load_example apply_filters_rows total_runs_kpis example_df_def within_days_def
        get_def)

text \<open>
  Claim C1, amended: for every record set and every date range, with an empty workflow
  selection the filter returns exactly the rows whose time stamp lies in the inclusive day
  range, whatever their workflow.
\<close>

theorem empty_selection_is_date_range_only:
  "apply_filters df [] start_date end_date =
     \<lparr>columns = columns df,
      rows = filter (\<lambda>r. within_days start_date end_date (get r ''timestamp'')) (rows df)\<rparr>"
  by (simp add: apply_filters_rows)

text \<open>
  Claim C2: for every record set, every non-empty workflow selection and every day range, the
  filter returns exactly the rows whose time stamp lies in
  \<open>[start 00:00:00, end 23:59:59.999999]\<close> and whose workflow is one of the selected, in
  their order and under the same columns.
\<close>

theorem apply_filters_selected:
  assumes "selected_workflows \<noteq> []"
  shows "apply_filters df selected_workflows start_date end_date =
     \<lparr>columns = columns df,
      rows = filter (\<lambda>r. within_days start_date end_date (get r ''timestamp'')
                          \<and> get r ''workflow'' \<in> set selected_workflows) (rows df)\<rparr>"
  using assms by (simp add: apply_filters_rows)

theorem apply_filters_selected_witness:
  "[Str ''A''] \<noteq> []
   \<and> rows (apply_filters example_df [Str ''A''] 19723 19724) = [hd (rows example_df)]"
  using apply_filters_selected [of "[Str ''A'']" example_df 19723 19724]
  by (simp add: example_df_def within_days_def get_def)

section \<open>Properties of the key metrics\<close>

text \<open>
  Claim C5: for every filter, \<open>total_runs\<close> is the number of rows of the filtered subset;
  \<open>active_workflows\<close> and \<open>active_branches\<close> are the numbers of distinct workflows and
  branches in it (0 when it is empty), and neither exceeds the number of distinct values in
  the unfiltered record set.
\<close>

theorem kpi_counts:
  "total_runs (compute_kpis (apply_filters df sel s e))
     = int (length (rows (apply_filters df sel s e)))
   \<and> active_workflows (compute_kpis (apply_filters df sel s e))
       = (if rows (apply_filters df sel s e) = [] then 0
          else int (card (set (col (apply_filters df sel s e) ''workflow'') - {NaN})))
   \<and> active_branches (compute_kpis (apply_filters df sel s e))
       = (if rows (apply_filters df sel s e) = [] then 0
          else int (card (set (col (apply_filters df sel s e) ''branch'') - {NaN})))
   \<and> active_workflows (compute_kpis (apply_filters df sel s e))
       \<le> int (nunique (col df ''workflow''))
   \<and> active_branches (compute_kpis (apply_filters df sel s e))
       \<le> int (nunique (col df ''branch''))"
proof -
  let ?f = "apply_filters df sel s e"
  have w: "nunique (col ?f ''workflow'') \<le> nunique (col df ''workflow'')"
    by (rule nunique_mono) (rule col_apply_filters_subset)
  have b: "nunique (col ?f ''branch'') \<le> nunique (col df ''branch'')"
    by (rule nunique_mono) (rule col_apply_filters_subset)
  show ?thesis
    using w b by (simp add: total_runs_kpis active_workflows_kpis active_branches_kpis nunique_card)
qed

theorem kpi_counts_witness:
  "total_runs (compute_kpis (apply_filters example_df [Str ''A''] 19723 19725)) = 2
   \<and> active_workflows (compute_kpis (apply_filters example_df [Str ''A''] 19723 19725)) = 1
   \<and> active_branches (compute_kpis (apply_filters example_df [Str ''A''] 19723 19725)) = 1
   \<and> nunique (col example_df ''workflow'') = 2"
  using kpi_counts [of example_df "[Str ''A'']" 19723 19725]
  by (simp add: apply_filters_rows example_df_def within_days_def get_def col_def nunique_def
        notna_def)

section \<open>Properties of the charts\<close>

text \<open>
  Claim C7: for every non-empty filtered subset of a loaded record set, the daily series is
  shown; it has one entry for every calendar day from the day of the earliest to the day of
  the latest time stamp of the subset, in chronological order, each with the number of runs
  of that day (zero for a day without runs), and its counts add up to \<open>total_runs\<close>.
\<close>

theorem daily_series:
  assumes "load fs to_datetime to_numeric = Inr df"
      and "rows (apply_filters df sel s e) \<noteq> []"
  shows "col (apply_filters df sel s e) ''timestamp''
       = map Ts (ts_values (col (apply_filters df sel s e) ''timestamp''))
     \<and> usage (render fmt1 fmt2 strftime df sel s e)
       = Shown (branch_chart (apply_filters df sel s e), daily (apply_filters df sel s e))
     \<and> daily (apply_filters df sel s e)
       = map (\<lambda>d. (d * ns_per_day,
                    length (filter (\<lambda>t. t div ns_per_day = d)
                              (ts_values (col (apply_filters df sel s e) ''timestamp'')))))
           [Min (set (ts_values (col (apply_filters df sel s e) ''timestamp''))) div ns_per_day
            .. Max (set (ts_values (col (apply_filters df sel s e) ''timestamp''))) div ns_per_day]
     \<and> sorted_wrt (<) (map fst (daily (apply_filters df sel s e)))
     \<and> int (sum_list (map snd (daily (apply_filters df sel s e))))
       = total_runs (metrics (render fmt1 fmt2 strftime df sel s e))"
proof -
  let ?f = "apply_filters df sel s e"
  let ?ts = "ts_values (col ?f ''timestamp'')"
  have all: "list_all is_ts (col ?f ''timestamp'')"
    using assms(1) by (intro col_apply_filters_all load_all_ts)
  then have m: "map Ts ?ts = col ?f ''timestamp''"
    by (rule ts_values_all)
  then have "length ?ts = length (col ?f ''timestamp'')"
    by (metis length_map)
  then have len: "length ?ts = length (rows ?f)"
    by (simp add: col_def)
  with assms(2) have ne: "?ts \<noteq> []" by auto
  have u: "usage (render fmt1 fmt2 strftime df sel s e) = Shown (branch_chart ?f, daily ?f)"
    using assms(2) by (simp add: render_def Let_def charts_def)
  have s: "sorted_wrt (<) (map fst (daily ?f))"
    unfolding daily_bins [OF ne]
    by (simp add: o_def sorted_wrt_map ns_per_day_def sorted_wrt_upto)
  have t: "int (sum_list (map snd (daily ?f))) = total_runs (metrics (render fmt1 fmt2 strftime df sel s e))"
    by (simp add: sum_daily [OF ne] len render_def Let_def total_runs_kpis)
  from m [symmetric] u daily_bins [OF ne] s t show ?thesis by (intro conjI)
qed

theorem daily_series_witness:
  "load example_fs example_to_datetime example_to_numeric = Inr example_df
   \<and> rows (apply_filters example_df [Str ''A''] 19723 19725) \<noteq> []
   \<and> daily (apply_filters example_df [Str ''A''] 19723 19725)
       = [(1704067200000000000, 1), (1704153600000000000, 0), (1704240000000000000, 1)]
   \<and> total_runs (metrics (render (\<lambda>x. ''1.0 min'') (\<lambda>x. ''1.00 min'') (\<lambda>f t. f)
         example_df [Str ''A''] 19723 19725)) = 2"
proof -
  have ne: "rows (apply_filters example_df [Str ''A''] 19723 19725) \<noteq> []"
    by (simp add: apply_filters_rows example_df_def within_days_def get_def)
  note t = daily_series [OF load_example ne,
      of "\<lambda>x. ''1.0 min''" "\<lambda>x. ''1.00 min''" "\<lambda>f t. f"]
  from t have "int (sum_list (map snd (daily (apply_filters example_df [Str ''A''] 19723 19725))))
      = total_runs (metrics (render (\<lambda>x. ''1.0 min'') (\<lambda>x. ''1.00 min'') (\<lambda>f t. f)
         example_df [Str ''A''] 19723 19725))"
    by (elim conjE)
  then have r: "total_runs (metrics (render (\<lambda>x. ''1.0 min'') (\<lambda>x. ''1.00 min'') (\<lambda>f t. f)
         example_df [Str ''A''] 19723 19725)) = 2"
    by (simp add: daily_example)
  from load_example ne daily_example r show ?thesis by (intro conjI)
qed




section \<open>Properties of the runs table\<close>



section \<open>Evaluation and the record set\<close>

text \<open>
  Claim C10: every output is a function of the loaded record set and the filter values alone,
  and no evaluation changes the loaded record set. On the store, whatever else the store
  holds and wherever the record set lies in it: two evaluations on the same record set with
  the same filter values show the same page (the five metrics, the branch distribution, the
  daily series and the table), namely the one computed from the record set alone; the
  filtered subset is a new object; and after the evaluation the record set, like every
  object that was in the store before, is what it was.
\<close>

theorem evaluation_is_pure:
  assumes "obj_at h1 a1 = Some (Frame df)" and "obj_at h2 a2 = Some (Frame df)"
  shows "fst (run_script fmt1 fmt2 strftime h1 a1 sel s e)
       = fst (run_script fmt1 fmt2 strftime h2 a2 sel s e)
     \<and> fst (run_script fmt1 fmt2 strftime h1 a1 sel s e) = render fmt1 fmt2 strftime df sel s e
     \<and> obj_at (snd (run_script fmt1 fmt2 strftime h1 a1 sel s e)) (length h1)
       = Some (Frame (apply_filters df sel s e))
     \<and> obj_at (snd (run_script fmt1 fmt2 strftime h1 a1 sel s e)) a1 = Some (Frame df)
     \<and> (\<forall>q < length h1. obj_at (snd (run_script fmt1 fmt2 strftime h1 a1 sel s e)) q
                          = obj_at h1 q)"
proof -
  have fa: "frame_at h1 a1 = df"
    using assms(1) by (simp add: frame_at_def)
  from assms(1) have a: "a1 < length h1"
    by (simp add: obj_at_def split: if_splits)
  have old: "obj_at (snd (run_script fmt1 fmt2 strftime h1 a1 sel s e)) q = obj_at h1 q"
    if "q < length h1" for q
    using that run_script_heap [of q h1 fmt1 fmt2 strftime a1 sel s e]
    by (simp add: obj_at_append_old)
  have 1: "fst (run_script fmt1 fmt2 strftime h1 a1 sel s e)
       = fst (run_script fmt1 fmt2 strftime h2 a2 sel s e)"
    by (simp add: run_script_pure [OF assms(1)] run_script_pure [OF assms(2)])
  have 2: "fst (run_script fmt1 fmt2 strftime h1 a1 sel s e) = render fmt1 fmt2 strftime df sel s e"
    by (rule run_script_pure [OF assms(1)])
  have 3: "obj_at (snd (run_script fmt1 fmt2 strftime h1 a1 sel s e)) (length h1)
       = Some (Frame (apply_filters df sel s e))"
    using run_script_heap [of "length h1" h1 fmt1 fmt2 strftime a1 sel s e]
    by (simp add: obj_at_append_new fa)
  have 4: "obj_at (snd (run_script fmt1 fmt2 strftime h1 a1 sel s e)) a1 = Some (Frame df)"
    using old [OF a] assms(1) by simp
  from 1 2 3 4 old show ?thesis by blast
qed

theorem evaluation_is_pure_witness:
  "obj_at [Frame example_df] 0 = Some (Frame example_df)
   \<and> obj_at [Frame sparse_df, Frame example_df] 1 = Some (Frame example_df)
   \<and> fst (run_script (\<lambda>x. ''1.0 min'') (\<lambda>x. ''1.00 min'') (\<lambda>f t. f)
          [Frame example_df] 0 [Str ''A''] 19723 19725)
     = fst (run_script (\<lambda>x. ''1.0 min'') (\<lambda>x. ''1.00 min'') (\<lambda>f t. f)
          [Frame sparse_df, Frame example_df] 1 [Str ''A''] 19723 19725)
   \<and> obj_at (snd (run_script (\<lambda>x. ''1.0 min'') (\<lambda>x. ''1.00 min'') (\<lambda>f t. f)
          [Frame example_df] 0 [Str ''A''] 19723 19725)) 0 = Some (Frame example_df)"
proof -
  have a: "obj_at [Frame example_df] 0 = Some (Frame example_df)"
    by (simp add: obj_at_def)
  have b: "obj_at [Frame sparse_df, Frame example_df] 1 = Some (Frame example_df)"
    by (simp add: obj_at_def)
  note t = evaluation_is_pure [OF a b, of "\<lambda>x. ''1.0 min''" "\<lambda>x. ''1.00 min''" "\<lambda>f t. f"
      "[Str ''A'']" 19723 19725]
  from a b t [THEN conjunct1] t [THEN conjunct2, THEN conjunct2, THEN conjunct2, THEN conjunct1]
  show ?thesis by (intro conjI)
qed

end
